theory Spec2Isabelle
  imports Complex_Main
begin

section \<open>The invoice e-mail job: InvoiceEmailHandler.handle\<close>

text \<open>
  The handler is asynchronous TypeScript. Every \<^verbatim>\<open>await\<close> either yields a value or
  rejects, so a computation is a function from the world it runs in to a result
  (\<open>Inl\<close> the thrown value) and the world it leaves behind. The world holds what the
  handler changes: the history of the job record (one entry per call of
  \<^verbatim>\<open>jobService.updateJobStatus\<close>, which is modelled as the append it performs) and
  the files under \<^verbatim>\<open>/tmp\<close>.
\<close>

subsection \<open>Values\<close>

datatype exn = Error string | NonError

text \<open>\<^verbatim>\<open>error instanceof Error ? error.message : 'Unknown error'\<close>\<close>

definition message_of :: "exn \<Rightarrow> string" where
  "message_of e = (case e of Error m \<Rightarrow> m | NonError \<Rightarrow> ''Unknown error'')"

datatype JobStatus = Processing | Completed | Failed

datatype step_status = started | completed

record JobStepResult =
  sr_step :: string
  sr_status :: step_status
  sr_invoiceId :: string
  sr_details :: string
  sr_file_id :: "string option"
  sr_recipientEmail :: "string option"

record job_update =
  ju_jobId :: string
  ju_status :: JobStatus
  ju_tenantId :: string
  ju_pgBossJobId :: string
  ju_stepResult :: "JobStepResult option"
  ju_error :: "string option"
  ju_details :: "string option"

record job_step =
  stepName :: string
  step_type :: string

record InvoiceEmailJobData =
  jobServiceId :: string
  tenantId :: string
  invoiceIds :: "string list"
  steps :: "job_step list"

record invoice_contact =
  contact_name :: string
  contact_address :: string

record invoice_view =
  invoice_number :: string
  company_id :: string
  contact :: "invoice_contact option"

record company =
  company_name :: string
  email :: "string option"
  billing_contact_id :: "string option"
  billing_email :: "string option"
  address :: "string option"

record contact_row =
  contact_email :: "string option"
  full_name :: string

record email_company =
  ec_name :: string
  ec_logo :: string
  ec_address :: string

record email_request =
  er_invoice :: invoice_view
  er_recipientEmail :: string
  er_tenantId :: string
  er_company :: email_company

text \<open>JavaScript truthiness of an optional string: \<^verbatim>\<open>undefined\<close>, \<^verbatim>\<open>null\<close> and \<^verbatim>\<open>''\<close> are falsy.\<close>

definition truthy :: "string option \<Rightarrow> bool" where
  "truthy s = (case s of None \<Rightarrow> False | Some v \<Rightarrow> v \<noteq> [])"

text \<open>\<^verbatim>\<open>s || d\<close> on an optional string.\<close>

definition or_else :: "string option \<Rightarrow> string \<Rightarrow> string" where
  "or_else s d = (case s of None \<Rightarrow> d | Some v \<Rightarrow> if v = [] then d else v)"

text \<open>A number inside a template string: its decimal digits.\<close>

definition digit_char :: "nat \<Rightarrow> char" where
  "digit_char d = char_of (48 + d)"

fun string_of_nat :: "nat \<Rightarrow> string" where
  "string_of_nat n =
     (if n < 10 then [digit_char n] else string_of_nat (n div 10) @ [digit_char (n mod 10)])"

declare string_of_nat.simps [simp del]

subsection \<open>The world and the collaborators\<close>

record world =
  job_log :: "job_update list"
  files :: "string \<rightharpoonup> string"

text \<open>
  The services the handler calls are its parameters: each is a function that yields a
  value or the value it rejects with, and none of them touches the job history or the
  files. \<open>create_services\<close> is the outcome of the constructors and factories called
  before the outer \<^verbatim>\<open>try\<close>, \<open>Date_now i\<close> the clock reading taken while invoice number
  \<open>i\<close> of the batch is processed, and \<open>writeFile_error\<close> says for which paths
  \<^verbatim>\<open>fs.writeFile\<close> rejects.
\<close>

record collaborators =
  create_services :: "exn option"
  getInvoiceForRendering :: "string \<Rightarrow> exn + invoice_view option"
  getCompanyById :: "string \<Rightarrow> exn + company option"
  ContactModel_get :: "string \<Rightarrow> exn + contact_row option"
  generateAndStore :: "string \<Rightarrow> string \<Rightarrow> nat \<Rightarrow> exn + string"
  downloadFile :: "string \<Rightarrow> exn + string"
  writeFile_error :: "string \<Rightarrow> exn option"
  sendInvoiceEmail :: "email_request \<Rightarrow> string \<Rightarrow> exn + bool"
  Date_now :: "nat \<Rightarrow> nat"

type_synonym 'a io = "world \<Rightarrow> (exn + 'a) \<times> world"

definition ret :: "'a \<Rightarrow> 'a io" where
  "ret v = (\<lambda>w. (Inr v, w))"

definition throw :: "exn \<Rightarrow> 'a io" where
  "throw e = (\<lambda>w. (Inl e, w))"

text \<open>\<^verbatim>\<open>await\<close> of a collaborator's promise: the value, or the rejection thrown.\<close>

definition await :: "exn + 'a \<Rightarrow> 'a io" where
  "await r = (\<lambda>w. (r, w))"

definition io_bind :: "'a io \<Rightarrow> ('a \<Rightarrow> 'b io) \<Rightarrow> 'b io" where
  "io_bind m f = (\<lambda>w. case m w of (Inl e, w') \<Rightarrow> (Inl e, w') | (Inr v, w') \<Rightarrow> f v w')"

text \<open>\<^verbatim>\<open>try { m } catch (error) { h }\<close>\<close>

definition try_catch :: "'a io \<Rightarrow> (exn \<Rightarrow> 'a io) \<Rightarrow> 'a io" where
  "try_catch m h = (\<lambda>w. case m w of (Inl e, w') \<Rightarrow> h e w' | (Inr v, w') \<Rightarrow> (Inr v, w'))"

text \<open>
  \<^verbatim>\<open>try { m } finally { f }\<close>: the finaliser runs on both exits of \<open>m\<close>; when it throws,
  its exception replaces the outcome of \<open>m\<close>.
\<close>

definition try_finally :: "'a io \<Rightarrow> unit io \<Rightarrow> 'a io" where
  "try_finally m f =
     (\<lambda>w. case m w of (r, w') \<Rightarrow>
        (case f w' of (Inl e, w'') \<Rightarrow> (Inl e, w'') | (Inr _, w'') \<Rightarrow> (r, w'')))"

definition updateJobStatus ::
  "string \<Rightarrow> JobStatus \<Rightarrow> string \<Rightarrow> string \<Rightarrow> JobStepResult option \<Rightarrow> string option
     \<Rightarrow> string option \<Rightarrow> unit io" where
  "updateJobStatus jobId st tenant pgBossJobId stepResult err dets =
     (\<lambda>w. (Inr (),
        w\<lparr>job_log := job_log w @
            [\<lparr>ju_jobId = jobId, ju_status = st, ju_tenantId = tenant,
              ju_pgBossJobId = pgBossJobId, ju_stepResult = stepResult,
              ju_error = err, ju_details = dets\<rparr>]\<rparr>))"

text \<open>
  The files are a map from paths to contents. A write that succeeds creates or replaces
  the file; \<^verbatim>\<open>fs.unlink\<close> removes a file and rejects when there is none at the path.
\<close>

definition fs_writeFile :: "collaborators \<Rightarrow> string \<Rightarrow> string \<Rightarrow> unit io" where
  "fs_writeFile env path buffer =
     (\<lambda>w. case writeFile_error env path of
        Some e \<Rightarrow> (Inl e, w)
      | None \<Rightarrow> (Inr (), w\<lparr>files := (files w)(path \<mapsto> buffer)\<rparr>))"

definition fs_unlink :: "string \<Rightarrow> unit io" where
  "fs_unlink path =
     (\<lambda>w. case files w path of
        None \<Rightarrow> (Inl (Error (''ENOENT: no such file or directory, unlink '' @ path)), w)
      | Some _ \<Rightarrow> (Inr (), w\<lparr>files := (files w)(path := None)\<rparr>))"

text \<open>
  \<^verbatim>\<open>steps[k]\<close> is \<^verbatim>\<open>undefined\<close> beyond the end of the array, and reading \<^verbatim>\<open>.type\<close> of
  \<^verbatim>\<open>undefined\<close> throws a TypeError.
\<close>

definition step_at :: "job_step list \<Rightarrow> nat \<Rightarrow> job_step option" where
  "step_at ss k = (if k < length ss then Some (ss ! k) else None)"

definition type_of_step :: "job_step option \<Rightarrow> exn + string" where
  "type_of_step s =
     (case s of
        None \<Rightarrow> Inl (Error ''Cannot read properties of undefined (reading type)'')
      | Some st \<Rightarrow> Inr (step_type st))"

subsection \<open>One invoice\<close>

text \<open>Lines 303-311: the invoice and its company.\<close>

definition fetchInvoice :: "collaborators \<Rightarrow> string \<Rightarrow> (invoice_view \<times> company) io" where
  "fetchInvoice env invoiceId =
     io_bind (await (getInvoiceForRendering env invoiceId)) (\<lambda>invoice_opt.
       case invoice_opt of
         None \<Rightarrow> throw (Error (''Failed to get details for Invoice ID '' @ invoiceId))
       | Some invoice \<Rightarrow>
           if invoice_number invoice = []
           then throw (Error (''Failed to get details for Invoice ID '' @ invoiceId))
           else io_bind (await (getCompanyById env (company_id invoice))) (\<lambda>comp.
             case comp of
               None \<Rightarrow> throw (Error (''Company not found for Invoice #'' @ invoice_number invoice))
             | Some c \<Rightarrow> ret (invoice, c)))"

text \<open>Lines 313-346: step 1, the PDF. The result is the stored file's identifier.\<close>

definition generatePdf ::
  "collaborators \<Rightarrow> string \<Rightarrow> InvoiceEmailJobData \<Rightarrow> job_step option \<Rightarrow> string
     \<Rightarrow> invoice_view \<Rightarrow> company \<Rightarrow> string io" where
  "generatePdf env pgBossJobId data pdfStep invoiceId invoice c =
     io_bind (await (type_of_step pdfStep)) (\<lambda>pdfType.
     io_bind (updateJobStatus (jobServiceId data) Processing (tenantId data) pgBossJobId
        (Some \<lparr>sr_step = pdfType, sr_status = started, sr_invoiceId = invoiceId,
               sr_details = ''Generating PDF for Invoice #'' @ invoice_number invoice @ '' (''
                  @ company_name c @ '')'',
               sr_file_id = None, sr_recipientEmail = None\<rparr>) None None) (\<lambda>_.
     io_bind (await (generateAndStore env invoiceId (invoice_number invoice) 1)) (\<lambda>file_id.
     io_bind (updateJobStatus (jobServiceId data) Processing (tenantId data) pgBossJobId
        (Some \<lparr>sr_step = pdfType, sr_status = completed, sr_invoiceId = invoiceId,
               sr_details = ''Generated PDF for Invoice #'' @ invoice_number invoice @ '' (''
                  @ company_name c @ '')'',
               sr_file_id = Some file_id, sr_recipientEmail = None\<rparr>) None None) (\<lambda>_.
     ret file_id))))"

text \<open>
  Lines 349-365: the recipient. The billing e-mail is the \<^verbatim>\<open>else if\<close> of the test on
  \<^verbatim>\<open>billing_contact_id\<close>. \<open>pickRecipient\<close> is the assignment of lines 350-361 (the
  address possibly absent, and the name), \<open>resolveRecipient\<close> adds the test of line 363.
\<close>

definition pickRecipient ::
  "collaborators \<Rightarrow> company \<Rightarrow> exn + (string option \<times> string)" where
  "pickRecipient env c =
     (if truthy (billing_contact_id c)
      then (case ContactModel_get env (the (billing_contact_id c)) of
              Inl e \<Rightarrow> Inl e
            | Inr (Some row) \<Rightarrow> Inr (contact_email row, full_name row)
            | Inr None \<Rightarrow> Inr (email c, company_name c))
      else if truthy (billing_email c)
      then Inr (billing_email c, company_name c)
      else Inr (email c, company_name c))"

definition resolveRecipient ::
  "collaborators \<Rightarrow> invoice_view \<Rightarrow> company \<Rightarrow> exn + (string \<times> string)" where
  "resolveRecipient env invoice c =
     (case pickRecipient env c of
        Inl e \<Rightarrow> Inl e
      | Inr (recipientEmail, recipientName) \<Rightarrow>
          if \<not> truthy recipientEmail
          then Inl (Error (''No valid email address found for '' @ company_name c
                 @ '' (Invoice #'' @ invoice_number invoice @ '')''))
          else Inr (the recipientEmail, recipientName))"

definition tempPath :: "collaborators \<Rightarrow> nat \<Rightarrow> invoice_view \<Rightarrow> string" where
  "tempPath env i invoice =
     ''/tmp/invoice_'' @ invoice_number invoice @ ''_'' @ string_of_nat (Date_now env i) @ ''.pdf''"

text \<open>Lines 391-428: the send, inside \<^verbatim>\<open>try\<close>, and the \<^verbatim>\<open>finally\<close> that unlinks the file.\<close>

definition sendAndCleanUp ::
  "collaborators \<Rightarrow> string \<Rightarrow> InvoiceEmailJobData \<Rightarrow> string \<Rightarrow> string \<Rightarrow> invoice_view
     \<Rightarrow> company \<Rightarrow> string \<Rightarrow> string \<Rightarrow> string \<Rightarrow> unit io" where
  "sendAndCleanUp env pgBossJobId data emailType invoiceId invoice c recipientEmail recipientName path =
     try_finally
       (io_bind (await (sendInvoiceEmail env
           \<lparr>er_invoice = invoice, er_recipientEmail = recipientEmail, er_tenantId = tenantId data,
            er_company = \<lparr>ec_name = company_name c, ec_logo = [],
                          ec_address = or_else (address c) []\<rparr>\<rparr>
           path)) (\<lambda>success.
          if \<not> success then throw (Error ''Failed to send invoice email'')
          else updateJobStatus (jobServiceId data) Processing (tenantId data) pgBossJobId
             (Some \<lparr>sr_step = emailType, sr_status = completed, sr_invoiceId = invoiceId,
                    sr_details = ''Successfully sent Invoice #'' @ invoice_number invoice @ '' to ''
                       @ recipientName @ '' at '' @ company_name c,
                    sr_file_id = None, sr_recipientEmail = Some recipientEmail\<rparr>) None None))
       (fs_unlink path)"

text \<open>Lines 367-428: step 2, the e-mail.\<close>

definition sendEmail ::
  "collaborators \<Rightarrow> string \<Rightarrow> InvoiceEmailJobData \<Rightarrow> nat \<Rightarrow> job_step option \<Rightarrow> string
     \<Rightarrow> invoice_view \<Rightarrow> company \<Rightarrow> string \<Rightarrow> string \<Rightarrow> string \<Rightarrow> unit io" where
  "sendEmail env pgBossJobId data i emailStep invoiceId invoice c file_id recipientEmail recipientName =
     io_bind (await (type_of_step emailStep)) (\<lambda>emailType.
     io_bind (updateJobStatus (jobServiceId data) Processing (tenantId data) pgBossJobId
        (Some \<lparr>sr_step = emailType, sr_status = started, sr_invoiceId = invoiceId,
               sr_details = ''Sending Invoice #'' @ invoice_number invoice @ '' to '' @ recipientName
                  @ '' ('' @ recipientEmail @ '') at '' @ company_name c,
               sr_file_id = None, sr_recipientEmail = None\<rparr>) None None) (\<lambda>_.
     io_bind (await (downloadFile env file_id)) (\<lambda>buffer.
     io_bind (fs_writeFile env (tempPath env i invoice) buffer) (\<lambda>_.
       sendAndCleanUp env pgBossJobId data emailType invoiceId
         (invoice\<lparr>contact := Some \<lparr>contact_name = recipientName,
                                contact_address = or_else (address c) []\<rparr>\<rparr>)
         c recipientEmail recipientName (tempPath env i invoice)))))"

text \<open>Lines 301-428: the body of the inner \<^verbatim>\<open>try\<close>.\<close>

definition processInvoice ::
  "collaborators \<Rightarrow> string \<Rightarrow> InvoiceEmailJobData \<Rightarrow> nat \<Rightarrow> string \<Rightarrow> unit io" where
  "processInvoice env pgBossJobId data i invoiceId =
     io_bind (fetchInvoice env invoiceId) (\<lambda>(invoice, c).
     io_bind (generatePdf env pgBossJobId data (step_at (steps data) (i * 2)) invoiceId invoice c)
       (\<lambda>file_id.
     io_bind (await (resolveRecipient env invoice c)) (\<lambda>(recipientEmail, recipientName).
       sendEmail env pgBossJobId data i (step_at (steps data) (i * 2 + 1)) invoiceId invoice c
         file_id recipientEmail recipientName)))"

text \<open>
  Lines 430-446: the inner \<^verbatim>\<open>catch\<close>. It reads the invoice and the company again,
  records the failure with its context and throws the error it caught.
\<close>

definition contextualError ::
  "invoice_view option \<Rightarrow> company option \<Rightarrow> string \<Rightarrow> exn \<Rightarrow> string" where
  "contextualError invoice_opt company_opt invoiceId err =
     ''Failed to process Invoice #''
       @ (case invoice_opt of
            None \<Rightarrow> invoiceId
          | Some invoice \<Rightarrow>
              if invoice_number invoice = [] then invoiceId else invoice_number invoice)
       @ '' for ''
       @ (case company_opt of
            None \<Rightarrow> ''Unknown Company''
          | Some c \<Rightarrow> if company_name c = [] then ''Unknown Company'' else company_name c)
       @ '': '' @ message_of err"

definition onInvoiceError ::
  "collaborators \<Rightarrow> string \<Rightarrow> InvoiceEmailJobData \<Rightarrow> string \<Rightarrow> exn \<Rightarrow> unit io" where
  "onInvoiceError env pgBossJobId data invoiceId err =
     io_bind (await (getInvoiceForRendering env invoiceId)) (\<lambda>invoice_opt.
     io_bind (case invoice_opt of
                None \<Rightarrow> ret None
              | Some invoice \<Rightarrow> await (getCompanyById env (company_id invoice)))
       (\<lambda>company_opt.
     io_bind (updateJobStatus (jobServiceId data) Failed (tenantId data) pgBossJobId None
        (Some (contextualError invoice_opt company_opt invoiceId err)) None) (\<lambda>_.
     throw err)))"

text \<open>Lines 301-446: what one turn of the loop does for its invoice.\<close>

definition invoicePipeline ::
  "collaborators \<Rightarrow> string \<Rightarrow> InvoiceEmailJobData \<Rightarrow> nat \<Rightarrow> string \<Rightarrow> unit io" where
  "invoicePipeline env pgBossJobId data i invoiceId =
     try_catch (processInvoice env pgBossJobId data i invoiceId)
       (onInvoiceError env pgBossJobId data invoiceId)"

subsection \<open>The batch\<close>

text \<open>The \<^verbatim>\<open>for\<close> loop over \<^verbatim>\<open>invoiceIds\<close>, from index \<open>i\<close> on.\<close>

fun invoiceLoop ::
  "collaborators \<Rightarrow> string \<Rightarrow> InvoiceEmailJobData \<Rightarrow> nat \<Rightarrow> string list \<Rightarrow> unit io" where
  "invoiceLoop env pgBossJobId data i [] = ret ()"
| "invoiceLoop env pgBossJobId data i (invoiceId # rest) =
     io_bind (invoicePipeline env pgBossJobId data i invoiceId)
       (\<lambda>_. invoiceLoop env pgBossJobId data (Suc i) rest)"

definition handle :: "collaborators \<Rightarrow> string \<Rightarrow> InvoiceEmailJobData \<Rightarrow> unit io" where
  "handle env pgBossJobId data =
     (if jobServiceId data = [] then throw (Error ''jobServiceId is required in job data'')
      else if tenantId data = [] then throw (Error ''Tenant ID is required'')
      else if invoiceIds data = [] then throw (Error ''No invoice IDs provided'')
      else io_bind (await (case create_services env of Some e \<Rightarrow> Inl e | None \<Rightarrow> Inr ()))
        (\<lambda>_.
          try_catch
            (io_bind (invoiceLoop env pgBossJobId data 0 (invoiceIds data)) (\<lambda>_.
               updateJobStatus (jobServiceId data) Completed (tenantId data) pgBossJobId None None
                 (Some (''Successfully processed '' @ string_of_nat (length (invoiceIds data))
                    @ '' invoice(s)''))))
            (\<lambda>err.
               io_bind (updateJobStatus (jobServiceId data) Failed (tenantId data) pgBossJobId
                  None (Some (message_of err)) None) (\<lambda>_.
               throw err))))"

text \<open>What the job history holds: the step results, and of each its step, status and invoice.\<close>

definition stepResults :: "job_update list \<Rightarrow> JobStepResult list" where
  "stepResults l = List.map_filter ju_stepResult l"

definition event_of :: "JobStepResult \<Rightarrow> string \<times> step_status \<times> string" where
  "event_of r = (sr_step r, sr_status r, sr_invoiceId r)"

text \<open>The step results of the invoice at index \<open>i\<close> of a batch whose steps array covers it.\<close>

definition invoice_events ::
  "InvoiceEmailJobData \<Rightarrow> nat \<Rightarrow> string \<Rightarrow> (string \<times> step_status \<times> string) list" where
  "invoice_events data i invoiceId =
     [(step_type (steps data ! (i * 2)), started, invoiceId),
      (step_type (steps data ! (i * 2)), completed, invoiceId),
      (step_type (steps data ! (i * 2 + 1)), started, invoiceId),
      (step_type (steps data ! (i * 2 + 1)), completed, invoiceId)]"

text \<open>The two records the handler writes on its way out.\<close>

definition failedUpdate :: "InvoiceEmailJobData \<Rightarrow> string \<Rightarrow> string \<Rightarrow> job_update" where
  "failedUpdate data pgBossJobId msg =
     \<lparr>ju_jobId = jobServiceId data, ju_status = Failed, ju_tenantId = tenantId data,
      ju_pgBossJobId = pgBossJobId, ju_stepResult = None, ju_error = Some msg,
      ju_details = None\<rparr>"

definition completedUpdate :: "InvoiceEmailJobData \<Rightarrow> string \<Rightarrow> job_update" where
  "completedUpdate data pgBossJobId =
     \<lparr>ju_jobId = jobServiceId data, ju_status = Completed, ju_tenantId = tenantId data,
      ju_pgBossJobId = pgBossJobId, ju_stepResult = None, ju_error = None,
      ju_details = Some (''Successfully processed ''
        @ string_of_nat (length (invoiceIds data)) @ '' invoice(s)'')\<rparr>"

text \<open>
  The precedence as the specification words it: the billing contact's address first,
  then the billing e-mail, then the general e-mail, the first one present winning.
\<close>

definition recipient_by_precedence ::
  "collaborators \<Rightarrow> invoice_view \<Rightarrow> company \<Rightarrow> exn + (string \<times> string)" where
  "recipient_by_precedence env invoice c =
     (case (if truthy (billing_contact_id c)
            then ContactModel_get env (the (billing_contact_id c)) else Inr None) of
        Inl e \<Rightarrow> Inl e
      | Inr row_opt \<Rightarrow>
          if (case row_opt of None \<Rightarrow> False | Some row \<Rightarrow> truthy (contact_email row))
          then Inr (the (contact_email (the row_opt)), full_name (the row_opt))
          else if truthy (billing_email c) then Inr (the (billing_email c), company_name c)
          else if truthy (email c) then Inr (the (email c), company_name c)
          else Inl (Error (''No valid email address found for '' @ company_name c
                 @ '' (Invoice #'' @ invoice_number invoice @ '')'')))"

section \<open>Invoice generation and finalisation\<close>

text \<open>
  \<^verbatim>\<open>generateInvoice\<close> and \<^verbatim>\<open>finalizeInvoice\<close> are imported by the test
  \<^verbatim>\<open>billingInvoiceGeneration.test.ts\<close> from \<^verbatim>\<open>lib/actions/invoiceActions\<close>, a module
  that is not among the sources. Their definitions here follow the specification
  (its sections 3, 4.1 to 4.3, 6 and 7); the test supplies the wording of the two messages
  it checks. Amounts are in the minor currency unit.
\<close>

text \<open>
  Modelled from the spec: the data model of section 3 and the errors of section 7, which
  the missing module shares with its callers. A linked service is held by the row that
  links it; quantities, rates and amounts are rationals.
\<close>

datatype plan_type = Fixed | Hourly | Usage | Bucket

datatype rejection = ValidationError string | ComputationError string

record Service =
  service_id :: string
  service_name :: string
  default_rate :: "rat option"

record PlanService =
  ps_service :: Service
  ps_quantity :: "rat option"
  custom_rate :: "rat option"

record TimeEntry =
  te_service_id :: string
  billable_duration :: rat
  approval_status :: string

record UsageRecord =
  ur_service :: Service
  ur_quantity :: rat

record BucketUsage =
  bu_service :: Service
  hours_used :: rat
  total_hours :: rat
  overage_rate :: rat

record BillingPlan =
  plan_id :: string
  plan_kind :: plan_type

record TaxRate =
  tax_percentage :: rat
  is_reverse_charge_applicable :: bool

record InvoiceLineItem =
  description :: string
  quantity :: rat
  unit_price :: rat
  net_amount :: rat

datatype invoice_status = draft | sent | failed

record Invoice =
  invoice_id :: nat
  invoice_company :: string
  line_items :: "InvoiceLineItem list"
  subtotal :: rat
  tax :: rat
  total_amount :: rat
  status :: invoice_status
  finalized_at :: "int option"

text \<open>
  Modelled from the spec: the billing-record source of section 6, read-only and scoped by
  company, plan and period. \<open>active_plans\<close> lists the plans active for a company within
  a period in the order of their assignment; the other fields are the rows of one plan
  that fall into the period.
\<close>

record billing_source =
  active_plans :: "string \<Rightarrow> int \<Rightarrow> int \<Rightarrow> BillingPlan list"
  plan_services :: "string \<Rightarrow> PlanService list"
  time_entries :: "string \<Rightarrow> string \<Rightarrow> int \<Rightarrow> int \<Rightarrow> TimeEntry list"
  usage_records :: "string \<Rightarrow> string \<Rightarrow> int \<Rightarrow> int \<Rightarrow> UsageRecord list"
  bucket_usage :: "string \<Rightarrow> string \<Rightarrow> int \<Rightarrow> int \<Rightarrow> BucketUsage list"
  tax_override :: "string \<Rightarrow> TaxRate option"
  tax_settings :: "string \<Rightarrow> TaxRate option"

text \<open>Modelled from the spec: a line item, with net_amount = quantity \<times> unit_price (section 3).\<close>

definition line_item :: "string \<Rightarrow> rat \<Rightarrow> rat \<Rightarrow> InvoiceLineItem" where
  "line_item d q p = \<lparr>description = d, quantity = q, unit_price = p, net_amount = q * p\<rparr>"

text \<open>Modelled from the spec: the rate of a plan service, \<^verbatim>\<open>custom_rate ?? service.default_rate\<close>.\<close>

definition rate_of :: "PlanService \<Rightarrow> rat option" where
  "rate_of ps = (case custom_rate ps of Some r \<Rightarrow> Some r | None \<Rightarrow> default_rate (ps_service ps))"

text \<open>Modelled from the spec: the rejection of a required rate that is undefined (section 6).\<close>

definition missing_rate :: "string \<Rightarrow> rejection" where
  "missing_rate name = ComputationError (''No rate defined for service '' @ name)"

text \<open>
  Modelled from the spec: PlanAggregator, the items of several rows or plans concatenated in
  their order; the first rejection ends the run.
\<close>

fun all_items :: "(rejection + InvoiceLineItem list) list \<Rightarrow> rejection + InvoiceLineItem list" where
  "all_items [] = Inr []"
| "all_items (r # rs) =
     (case r of
        Inl e \<Rightarrow> Inl e
      | Inr xs \<Rightarrow> (case all_items rs of Inl e \<Rightarrow> Inl e | Inr ys \<Rightarrow> Inr (xs @ ys)))"

text \<open>
  Modelled from the spec: PlanAggregator, Fixed plans (section 4.1). One item per plan
  service, the quantity 1 when none is given; a service with no rate rejects.
\<close>

definition fixed_line :: "PlanService \<Rightarrow> rejection + InvoiceLineItem list" where
  "fixed_line ps =
     (case rate_of ps of
        None \<Rightarrow> Inl (missing_rate (service_name (ps_service ps)))
      | Some r \<Rightarrow>
          Inr [line_item (service_name (ps_service ps))
                 (case ps_quantity ps of None \<Rightarrow> 1 | Some q \<Rightarrow> q) r])"

text \<open>
  Modelled from the spec: the time entries that count for a plan service, those of its
  service with approval status APPROVED (section 3).
\<close>

definition approved_for :: "PlanService \<Rightarrow> TimeEntry list \<Rightarrow> TimeEntry list" where
  "approved_for ps es =
     filter (\<lambda>t. approval_status t = ''APPROVED''
                \<and> te_service_id t = service_id (ps_service ps)) es"

text \<open>
  Modelled from the spec: PlanAggregator, Hourly plans. The approved entries of a service
  make one item, its quantity their minutes over 60; a service with no approved entry
  makes none.
\<close>

definition hourly_line :: "TimeEntry list \<Rightarrow> PlanService \<Rightarrow> rejection + InvoiceLineItem list" where
  "hourly_line es ps =
     (if approved_for ps es = [] then Inr []
      else case rate_of ps of
        None \<Rightarrow> Inl (missing_rate (service_name (ps_service ps)))
      | Some r \<Rightarrow>
          Inr [line_item (service_name (ps_service ps))
                 (sum_list (map billable_duration (approved_for ps es)) / 60) r])"

text \<open>
  Modelled from the spec: PlanAggregator, Usage plans. One item per usage record, never
  merged, at the service's default rate.
\<close>

definition usage_line :: "UsageRecord \<Rightarrow> rejection + InvoiceLineItem list" where
  "usage_line u =
     (case default_rate (ur_service u) of
        None \<Rightarrow> Inl (missing_rate (service_name (ur_service u)))
      | Some r \<Rightarrow> Inr [line_item (service_name (ur_service u)) (ur_quantity u) r])"

text \<open>
  Modelled from the spec: the overage of a bucket-usage row, max(0, hours_used - total_hours)
  (section 3).
\<close>

definition overage :: "BucketUsage \<Rightarrow> rat" where
  "overage b = max 0 (hours_used b - total_hours b)"

text \<open>
  Modelled from the spec: PlanAggregator, Bucket plans (section 4.1). A row with overage
  makes one item, its description suffixed "(Overage)", at the bucket's overage rate; a
  row without makes none.
\<close>

definition bucket_line :: "BucketUsage \<Rightarrow> InvoiceLineItem list" where
  "bucket_line b =
     (if overage b > 0
      then [line_item (service_name (bu_service b) @ '' (Overage)'') (overage b) (overage_rate b)]
      else [])"

text \<open>Modelled from the spec: PlanAggregator, the items of one plan by its type.\<close>

definition plan_items ::
  "billing_source \<Rightarrow> string \<Rightarrow> int \<Rightarrow> int \<Rightarrow> BillingPlan \<Rightarrow> rejection + InvoiceLineItem list" where
  "plan_items src companyId periodStart periodEnd plan =
     (case plan_kind plan of
        Fixed \<Rightarrow> all_items (map fixed_line (plan_services src (plan_id plan)))
      | Hourly \<Rightarrow>
          all_items (map (hourly_line
              (time_entries src companyId (plan_id plan) periodStart periodEnd))
            (plan_services src (plan_id plan)))
      | Usage \<Rightarrow>
          all_items (map usage_line
            (usage_records src companyId (plan_id plan) periodStart periodEnd))
      | Bucket \<Rightarrow>
          Inr (concat (map bucket_line
            (bucket_usage src companyId (plan_id plan) periodStart periodEnd))))"

text \<open>
  Modelled from the spec: TaxCalculator, the rate selected (section 4.2): the company's
  override rate when present, else the rate of its tax settings.
\<close>

definition select_tax_rate :: "billing_source \<Rightarrow> string \<Rightarrow> TaxRate option" where
  "select_tax_rate src companyId =
     (case tax_override src companyId of Some r \<Rightarrow> Some r | None \<Rightarrow> tax_settings src companyId)"

text \<open>
  Modelled from the spec: TaxCalculator, the amount (section 4.2): the percentage of the
  subtotal rounded to the nearest unit, and 0 with no rate. The reverse-charge flag is
  carried and has no effect.
\<close>

definition calculateTax :: "TaxRate option \<Rightarrow> rat \<Rightarrow> rat" where
  "calculateTax rate amount =
     (case rate of None \<Rightarrow> 0 | Some r \<Rightarrow> of_int (round (amount * tax_percentage r / 100)))"

text \<open>
  Modelled from the spec: InvoiceAssembler (section 4.3). The persisted invoices are a
  list, an invoice's identifier its position in it; a new invoice is a draft.
\<close>

definition assemble ::
  "billing_source \<Rightarrow> Invoice list \<Rightarrow> string \<Rightarrow> InvoiceLineItem list \<Rightarrow> Invoice" where
  "assemble src store companyId items =
     \<lparr>invoice_id = length store, invoice_company = companyId, line_items = items,
      subtotal = sum_list (map net_amount items),
      tax = calculateTax (select_tax_rate src companyId) (sum_list (map net_amount items)),
      total_amount = sum_list (map net_amount items)
        + calculateTax (select_tax_rate src companyId) (sum_list (map net_amount items)),
      status = draft, finalized_at = None\<rparr>"

text \<open>
  Modelled from the spec: \<^verbatim>\<open>generateInvoice(companyId, periodStart, periodEnd)\<close> of
  \<^verbatim>\<open>lib/actions/invoiceActions\<close> (sections 2, 4.1 and 6). A period with start at or after
  its end is a validation error; a company with no plan active in the period is
  rejected by a message that names it; the items of the plans are concatenated in the
  order of the plans, and a rejection while they are computed leaves nothing persisted.
  The two messages are the ones the test expects.
\<close>

definition generateInvoice ::
  "billing_source \<Rightarrow> Invoice list \<Rightarrow> string \<Rightarrow> int \<Rightarrow> int
     \<Rightarrow> rejection + (Invoice \<times> Invoice list)" where
  "generateInvoice src store companyId periodStart periodEnd =
     (if periodStart \<ge> periodEnd
      then Inl (ValidationError ''Invalid billing period: start date must be before end date'')
      else if active_plans src companyId periodStart periodEnd = []
      then Inl (ComputationError (''No active billing plans found for company '' @ companyId
             @ '' in the given period''))
      else case all_items (map (plan_items src companyId periodStart periodEnd)
                  (active_plans src companyId periodStart periodEnd)) of
        Inl e \<Rightarrow> Inl e
      | Inr items \<Rightarrow>
          Inr (assemble src store companyId items, store @ [assemble src store companyId items]))"

text \<open>
  Modelled from the spec: \<^verbatim>\<open>finalizeInvoice(invoiceId)\<close> of \<^verbatim>\<open>lib/actions/invoiceActions\<close>
  (section 4.3). A draft becomes \<open>sent\<close> and is stamped with the time of the call; an
  invoice that does not exist, or is not a draft, is rejected.
\<close>

definition finalizeInvoice ::
  "Invoice list \<Rightarrow> nat \<Rightarrow> int \<Rightarrow> rejection + (Invoice \<times> Invoice list)" where
  "finalizeInvoice store invoiceId now =
     (if invoiceId \<ge> length store then Inl (ValidationError ''Invoice not found'')
      else if status (store ! invoiceId) \<noteq> draft
      then Inl (ValidationError ''Only a draft invoice can be finalized'')
      else Inr ((store ! invoiceId)\<lparr>status := sent, finalized_at := Some now\<rparr>,
                store[invoiceId := (store ! invoiceId)\<lparr>status := sent, finalized_at := Some now\<rparr>]))"

text \<open>Modelled from the spec: the two operations of the subsystem on the persisted invoices.\<close>

datatype invoice_op = Generate string int int | Finalize nat int

text \<open>
  Modelled from the spec: the effect of an operation on the persisted invoices, a rejected
  operation leaving none (section 7).
\<close>

definition apply_op :: "billing_source \<Rightarrow> invoice_op \<Rightarrow> Invoice list \<Rightarrow> rejection + Invoice list" where
  "apply_op src op store =
     (case op of
        Generate companyId periodStart periodEnd \<Rightarrow>
          map_sum id snd (generateInvoice src store companyId periodStart periodEnd)
      | Finalize invoiceId now \<Rightarrow> map_sum id snd (finalizeInvoice store invoiceId now))"

text \<open>
  Modelled from the spec: a plan whose required rate is undefined. A Fixed plan requires a
  rate for each of its services, an Hourly plan for each service with approved time, a
  Usage plan for the service of each usage record; a Bucket plan bills at the overage
  rate of its rows.
\<close>

definition rate_undefined :: "billing_source \<Rightarrow> string \<Rightarrow> int \<Rightarrow> int \<Rightarrow> BillingPlan \<Rightarrow> bool" where
  "rate_undefined src companyId periodStart periodEnd plan =
     (case plan_kind plan of
        Fixed \<Rightarrow> list_ex (\<lambda>ps. rate_of ps = None) (plan_services src (plan_id plan))
      | Hourly \<Rightarrow>
          list_ex (\<lambda>ps. rate_of ps = None
              \<and> approved_for ps (time_entries src companyId (plan_id plan) periodStart periodEnd) \<noteq> [])
            (plan_services src (plan_id plan))
      | Usage \<Rightarrow>
          list_ex (\<lambda>u. default_rate (ur_service u) = None)
            (usage_records src companyId (plan_id plan) periodStart periodEnd)
      | Bucket \<Rightarrow> False)"

section \<open>Concrete inputs\<close>

text \<open>A company with both addresses and no billing contact, and its two invoices.\<close>

definition acme :: company where
  "acme = \<lparr>company_name = ''Acme'', email = Some ''info@acme.test'', billing_contact_id = None,
           billing_email = Some ''billing@acme.test'', address = None\<rparr>"

definition demo_env :: collaborators where
  "demo_env =
     \<lparr>create_services = None,
      getInvoiceForRendering = (\<lambda>i.
        if i = ''inv-1''
        then Inr (Some \<lparr>invoice_number = ''1001'', company_id = ''co-1'', contact = None\<rparr>)
        else if i = ''inv-2''
        then Inr (Some \<lparr>invoice_number = ''1002'', company_id = ''co-1'', contact = None\<rparr>)
        else Inr None),
      getCompanyById = (\<lambda>c. if c = ''co-1'' then Inr (Some acme) else Inr None),
      ContactModel_get = (\<lambda>i.
        if i = ''ct-1''
        then Inr (Some \<lparr>contact_email = Some ''pat@acme.test'', full_name = ''Pat Lee''\<rparr>)
        else Inr None),
      generateAndStore = (\<lambda>i n v. Inr (''file-'' @ n)),
      downloadFile = (\<lambda>f. Inr ''%PDF-1.4''),
      writeFile_error = (\<lambda>p. None),
      sendInvoiceEmail = (\<lambda>r p. Inr True),
      Date_now = (\<lambda>i. 42 + i)\<rparr>"

text \<open>The same services with a mail server that refuses the connection.\<close>

definition smtp_down_env :: collaborators where
  "smtp_down_env =
     demo_env\<lparr>sendInvoiceEmail := (\<lambda>r p. Inl (Error ''SMTP connection refused''))\<rparr>"

definition demo_steps :: "job_step list" where
  "demo_steps =
     [\<lparr>stepName = ''Generate PDF 1'', step_type = ''pdf_generation''\<rparr>,
      \<lparr>stepName = ''Send email 1'', step_type = ''email_sending''\<rparr>,
      \<lparr>stepName = ''Generate PDF 2'', step_type = ''pdf_generation''\<rparr>,
      \<lparr>stepName = ''Send email 2'', step_type = ''email_sending''\<rparr>]"

definition single_batch :: InvoiceEmailJobData where
  "single_batch = \<lparr>jobServiceId = ''job-7'', tenantId = ''tenant-1'', invoiceIds = [''inv-1''],
                    steps = demo_steps\<rparr>"

definition double_batch :: InvoiceEmailJobData where
  "double_batch = \<lparr>jobServiceId = ''job-8'', tenantId = ''tenant-1'',
                    invoiceIds = [''inv-1'', ''inv-2''], steps = demo_steps\<rparr>"

definition missing_batch :: InvoiceEmailJobData where
  "missing_batch = \<lparr>jobServiceId = ''job-9'', tenantId = ''tenant-1'',
                     invoiceIds = [''inv-404'', ''inv-1''], steps = demo_steps\<rparr>"

definition empty_world :: world where
  "empty_world = \<lparr>job_log = [], files = Map.empty\<rparr>"

text \<open>Acme with a billing contact that no longer exists, and with one that does.\<close>

definition acme_dangling :: company where
  "acme_dangling = acme\<lparr>billing_contact_id := Some ''ct-9''\<rparr>"

definition acme_with_contact :: company where
  "acme_with_contact = acme\<lparr>billing_contact_id := Some ''ct-1''\<rparr>"

definition invoice_1001 :: invoice_view where
  "invoice_1001 = \<lparr>invoice_number = ''1001'', company_id = ''co-1'', contact = None\<rparr>"

text \<open>
  Billing records: a Fixed plan of one service at 50000 taxed at 10 percent, a Bucket
  plan of 40 hours with one row above and one row below the allotment, a Fixed plan
  whose service has no rate, and a company without any plan (every other identifier).
\<close>

definition demo_source :: billing_source where
  "demo_source =
     \<lparr>active_plans = (\<lambda>c s e.
        if c = ''co-fixed'' then [\<lparr>plan_id = ''p-fixed'', plan_kind = Fixed\<rparr>]
        else if c = ''co-bucket'' then [\<lparr>plan_id = ''p-bucket'', plan_kind = Bucket\<rparr>]
        else if c = ''co-norate'' then [\<lparr>plan_id = ''p-norate'', plan_kind = Fixed\<rparr>]
        else []),
      plan_services = (\<lambda>p.
        if p = ''p-fixed''
        then [\<lparr>ps_service = \<lparr>service_id = ''s-1'', service_name = ''Taxable Service'',
                               default_rate = Some 50000\<rparr>,
                ps_quantity = Some 1, custom_rate = None\<rparr>]
        else if p = ''p-norate''
        then [\<lparr>ps_service = \<lparr>service_id = ''s-2'', service_name = ''Service Without Rate'',
                               default_rate = None\<rparr>,
                ps_quantity = None, custom_rate = None\<rparr>]
        else []),
      time_entries = (\<lambda>c p s e. []),
      usage_records = (\<lambda>c p s e. []),
      bucket_usage = (\<lambda>c p s e.
        if p = ''p-bucket''
        then [\<lparr>bu_service = \<lparr>service_id = ''s-3'', service_name = ''Consulting Hours'',
                               default_rate = Some 0\<rparr>,
                hours_used = 45, total_hours = 40, overage_rate = 7500\<rparr>,
              \<lparr>bu_service = \<lparr>service_id = ''s-3'', service_name = ''Consulting Hours'',
                               default_rate = Some 0\<rparr>,
                hours_used = 30, total_hours = 40, overage_rate = 7500\<rparr>]
        else []),
      tax_override = (\<lambda>c. if c = ''co-fixed''
        then Some \<lparr>tax_percentage = 10, is_reverse_charge_applicable = False\<rparr> else None),
      tax_settings = (\<lambda>c. Some \<lparr>tax_percentage = 10, is_reverse_charge_applicable = False\<rparr>)\<rparr>"

section \<open>Properties of the invoice e-mail job\<close>

lemmas io_defs = io_bind_def ret_def throw_def await_def try_catch_def try_finally_def
  updateJobStatus_def fs_writeFile_def fs_unlink_def

lemmas stage_defs = processInvoice_def fetchInvoice_def generatePdf_def sendEmail_def
  sendAndCleanUp_def type_of_step_def

lemma stepResults_append: "stepResults (xs @ ys) = stepResults xs @ stepResults ys"
  by (simp add: stepResults_def map_filter_def)

lemma stepResults_Nil: "stepResults [] = []"
  by (simp add: stepResults_def map_filter_def)

lemma stepResults_Cons:
  "stepResults (u # us) =
     (case ju_stepResult u of None \<Rightarrow> stepResults us | Some r \<Rightarrow> r # stepResults us)"
  by (simp add: stepResults_def map_filter_def split: option.splits)

lemma stepResults_none: "\<forall>u\<in>set us. ju_stepResult u = None \<Longrightarrow> stepResults us = []"
  by (induction us) (simp_all add: stepResults_Nil stepResults_Cons)

text \<open>A successful turn emits the four step results of its invoice and removes its file.\<close>

lemma processInvoice_ok:
  assumes "processInvoice env pg data i invoiceId w = (Inr u, w')"
  shows "\<exists>new invoice. job_log w' = job_log w @ new \<and> i * 2 + 1 < length (steps data)
     \<and> (\<forall>u\<in>set new. ju_status u = Processing)
     \<and> map event_of (stepResults new) = invoice_events data i invoiceId
     \<and> getInvoiceForRendering env invoiceId = Inr (Some invoice)
     \<and> files w' = (files w)(tempPath env i invoice := None)"
  using assms
  by (auto simp: stage_defs io_defs step_at_def event_of_def invoice_events_def
        stepResults_Cons stepResults_Nil split: sum.splits option.splits if_splits prod.splits)

text \<open>The inner handler always throws, and writes at most one record, a failure.\<close>

lemma onInvoiceError_effect:
  assumes "onInvoiceError env pg data invoiceId err w = (r, w')"
  shows "(\<exists>e'. r = Inl e') \<and> files w' = files w
     \<and> (\<exists>tail. job_log w' = job_log w @ tail \<and> length tail \<le> 1
           \<and> (\<forall>u\<in>set tail. ju_status u = Failed \<and> ju_stepResult u = None))"
  using assms
  by (auto simp: onInvoiceError_def io_defs split: sum.splits option.splits)

lemma io_bind_assoc: "io_bind (io_bind m f) g = io_bind m (\<lambda>x. io_bind (f x) g)"
  by (auto simp: io_bind_def split: sum.splits prod.splits)

lemma io_bind_ret: "io_bind (ret v) f = f v"
  by (simp add: io_bind_def ret_def)

lemma invoiceLoop_append:
  "invoiceLoop env pg data i (xs @ ys) =
     io_bind (invoiceLoop env pg data i xs) (\<lambda>_. invoiceLoop env pg data (i + length xs) ys)"
  by (induction xs arbitrary: i) (simp_all add: io_bind_ret io_bind_assoc)

lemma invoicePipeline_ok:
  assumes "invoicePipeline env pg data i invoiceId w = (Inr u, w')"
  shows "processInvoice env pg data i invoiceId w = (Inr u, w')"
  using assms
  by (auto simp: invoicePipeline_def try_catch_def split: sum.splits prod.splits
      dest: onInvoiceError_effect)

lemma invoiceLoop_ok:
  assumes "invoiceLoop env pg data i ids w = (Inr u, w')"
  shows "\<exists>new. job_log w' = job_log w @ new
     \<and> (\<forall>u\<in>set new. ju_status u = Processing)
     \<and> map event_of (stepResults new) =
         concat (map (\<lambda>(j, invoiceId). invoice_events data j invoiceId) (enumerate i ids))
     \<and> (ids \<noteq> [] \<longrightarrow> (i + length ids) * 2 \<le> length (steps data))"
  using assms
proof (induction ids arbitrary: i w)
  case Nil
  then show ?case by (simp add: ret_def stepResults_Nil)
next
  case (Cons invoiceId rest)
  from Cons.prems obtain w1 where
    p: "invoicePipeline env pg data i invoiceId w = (Inr (), w1)"
    and l: "invoiceLoop env pg data (Suc i) rest w1 = (Inr u, w')"
    by (auto simp: io_bind_def split: sum.splits prod.splits)
  from processInvoice_ok [OF invoicePipeline_ok [OF p]] obtain new1 where
    n1: "job_log w1 = job_log w @ new1" "i * 2 + 1 < length (steps data)"
      "\<forall>u\<in>set new1. ju_status u = Processing"
      "map event_of (stepResults new1) = invoice_events data i invoiceId"
    by blast
  from Cons.IH [OF l] obtain new2 where
    n2: "job_log w' = job_log w1 @ new2" "\<forall>u\<in>set new2. ju_status u = Processing"
      "map event_of (stepResults new2) =
         concat (map (\<lambda>(j, invoiceId). invoice_events data j invoiceId) (enumerate (Suc i) rest))"
      "rest \<noteq> [] \<longrightarrow> (Suc i + length rest) * 2 \<le> length (steps data)"
    by blast
  show ?case
    using n1 n2
    by (intro exI [of _ "new1 @ new2"]) (auto simp: stepResults_append)
qed

text \<open>What the handler returns once the turn of invoice \<open>k\<close> has thrown.\<close>

lemma handle_after_failure:
  assumes valid: "jobServiceId data \<noteq> []" "tenantId data \<noteq> []" "create_services env = None"
    and k: "k < length (invoiceIds data)"
    and before: "invoiceLoop env pg data 0 (take k (invoiceIds data)) w = (Inr (), w1)"
    and caught: "invoicePipeline env pg data k (invoiceIds data ! k) w1 = (Inl e, w2)"
  shows "handle env pg data w =
     (Inl e, w2\<lparr>job_log := job_log w2 @ [failedUpdate data pg (message_of e)]\<rparr>)"
proof -
  have ids: "invoiceIds data =
      take k (invoiceIds data) @ (invoiceIds data ! k) # drop (Suc k) (invoiceIds data)"
    using k by (simp add: id_take_nth_drop)
  have "invoiceLoop env pg data 0 (invoiceIds data) w = (Inl e, w2)"
    using k by (subst ids) (simp add: invoiceLoop_append io_bind_def before caught)
  moreover have "invoiceIds data \<noteq> []" using k by auto
  ultimately show ?thesis
    using valid by (simp add: handle_def io_defs failedUpdate_def)
qed

lemma handle_after_success:
  assumes "jobServiceId data \<noteq> []" "tenantId data \<noteq> []" "create_services env = None"
    and "invoiceIds data \<noteq> []"
    and "invoiceLoop env pg data 0 (invoiceIds data) w = (Inr (), w1)"
  shows "handle env pg data w =
     (Inr (), w1\<lparr>job_log := job_log w1 @ [completedUpdate data pg]\<rparr>)"
  using assms by (simp add: handle_def io_defs completedUpdate_def)


lemma handle_returns:
  assumes "handle env pg data w = (Inr u, w')"
  shows "\<exists>w1. invoiceLoop env pg data 0 (invoiceIds data) w = (Inr (), w1)
     \<and> w' = w1\<lparr>job_log := job_log w1 @ [completedUpdate data pg]\<rparr>"
proof -
  obtain r w1 where l: "invoiceLoop env pg data 0 (invoiceIds data) w = (r, w1)"
    by (cases "invoiceLoop env pg data 0 (invoiceIds data) w")
  with assms have "r = Inr ()" "w' = w1\<lparr>job_log := job_log w1 @ [completedUpdate data pg]\<rparr>"
    by (auto simp: handle_def io_defs completedUpdate_def
        split: if_splits sum.splits option.splits)
  with l show ?thesis by blast
qed

text \<open>
  C1. If the turn of invoice \<open>k\<close> throws after the turns before it succeeded, the handler
  throws, and the history is the one at the throw followed only by Failed records, which
  carry no step result: the last record is Failed and the step results are those emitted
  up to the throw, so nothing is emitted for the invoices after \<open>k\<close>. If every turn
  succeeds, the handler returns and the last record is Completed.
\<close>

theorem handle_fails_fast_or_completes:
  assumes valid: "jobServiceId data \<noteq> []" "tenantId data \<noteq> []" "create_services env = None"
  shows "(k < length (invoiceIds data)
          \<and> invoiceLoop env pg data 0 (take k (invoiceIds data)) w = (Inr (), w1)
          \<and> processInvoice env pg data k (invoiceIds data ! k) w1 = (Inl e, w2)
        \<longrightarrow> (\<exists>e' tail. handle env pg data w = (Inl e', w2\<lparr>job_log := job_log w2 @ tail\<rparr>)
                \<and> tail \<noteq> []
                \<and> (\<forall>u\<in>set tail. ju_status u = Failed \<and> ju_stepResult u = None))
            \<and> ju_status (last (job_log (snd (handle env pg data w)))) = Failed
            \<and> stepResults (job_log (snd (handle env pg data w))) = stepResults (job_log w2))
       \<and> (invoiceIds data \<noteq> []
          \<and> invoiceLoop env pg data 0 (invoiceIds data) w = (Inr (), w1)
        \<longrightarrow> handle env pg data w =
              (Inr (), w1\<lparr>job_log := job_log w1 @ [completedUpdate data pg]\<rparr>)
            \<and> ju_status (completedUpdate data pg) = Completed)"
proof (intro conjI impI)
  assume a: "k < length (invoiceIds data)
          \<and> invoiceLoop env pg data 0 (take k (invoiceIds data)) w = (Inr (), w1)
          \<and> processInvoice env pg data k (invoiceIds data ! k) w1 = (Inl e, w2)"
  obtain r w3 where h: "onInvoiceError env pg data (invoiceIds data ! k) e w2 = (r, w3)"
    by (cases "onInvoiceError env pg data (invoiceIds data ! k) e w2")
  from onInvoiceError_effect [OF h] obtain e' t where
    t: "r = Inl e'" "job_log w3 = job_log w2 @ t" "files w3 = files w2"
      "\<forall>u\<in>set t. ju_status u = Failed \<and> ju_stepResult u = None"
    by blast
  have w3: "w3 = w2\<lparr>job_log := job_log w2 @ t\<rparr>"
    using t by simp
  have "invoicePipeline env pg data k (invoiceIds data ! k) w1 = (Inl e', w3)"
    using a h t by (simp add: invoicePipeline_def try_catch_def)
  with a have res: "handle env pg data w =
     (Inl e', w3\<lparr>job_log := job_log w3 @ [failedUpdate data pg (message_of e')]\<rparr>)"
    using handle_after_failure [OF valid] by blast
  show "\<exists>e' tail. handle env pg data w = (Inl e', w2\<lparr>job_log := job_log w2 @ tail\<rparr>)
                \<and> tail \<noteq> []
                \<and> (\<forall>u\<in>set tail. ju_status u = Failed \<and> ju_stepResult u = None)"
    apply (rule exI [of _ e'])
    apply (rule exI [of _ "t @ [failedUpdate data pg (message_of e')]"])
    using t(4) apply (simp add: res w3 failedUpdate_def)
    done
  show "ju_status (last (job_log (snd (handle env pg data w)))) = Failed"
    by (simp add: res failedUpdate_def)
  have "stepResults t = []"
    using t(4) by (simp add: stepResults_none)
  then show "stepResults (job_log (snd (handle env pg data w))) = stepResults (job_log w2)"
    by (simp add: res w3 stepResults_append stepResults_Cons stepResults_Nil failedUpdate_def)
next
  assume "invoiceIds data \<noteq> [] \<and> invoiceLoop env pg data 0 (invoiceIds data) w = (Inr (), w1)"
  then show "handle env pg data w =
     (Inr (), w1\<lparr>job_log := job_log w1 @ [completedUpdate data pg]\<rparr>)"
    using handle_after_success [OF valid] by blast
next
  show "ju_status (completedUpdate data pg) = Completed"
    by (simp add: completedUpdate_def)
qed

text \<open>
  C2, as the code has it. A batch that is processed to full success emits four step
  results for each invoice (PDF started and completed, e-mail started and completed),
  invoice by invoice in the order of the batch: 4N in all.
\<close>

theorem step_results_of_full_success:
  assumes "handle env pg data w = (Inr (), w')"
  shows "map event_of (stepResults (drop (length (job_log w)) (job_log w'))) =
           concat (map (\<lambda>(i, invoiceId). invoice_events data i invoiceId)
             (enumerate 0 (invoiceIds data)))
       \<and> length (stepResults (drop (length (job_log w)) (job_log w'))) =
           4 * length (invoiceIds data)"
proof -
  from handle_returns [OF assms] obtain w1 where
    l: "invoiceLoop env pg data 0 (invoiceIds data) w = (Inr (), w1)"
    and w': "w' = w1\<lparr>job_log := job_log w1 @ [completedUpdate data pg]\<rparr>"
    by blast
  from invoiceLoop_ok [OF l] obtain new where
    n: "job_log w1 = job_log w @ new"
      "map event_of (stepResults new) =
         concat (map (\<lambda>(j, invoiceId). invoice_events data j invoiceId)
           (enumerate 0 (invoiceIds data)))"
    by blast
  have d: "stepResults (drop (length (job_log w)) (job_log w')) = stepResults new"
    by (simp add: w' n(1) stepResults_append stepResults_Cons stepResults_Nil completedUpdate_def)
  have "length (concat (map (\<lambda>(j, invoiceId). invoice_events data j invoiceId) xs)) = 4 * length xs"
    for xs :: "(nat \<times> string) list"
    by (induction xs) (auto simp: invoice_events_def)
  from this [of "enumerate 0 (invoiceIds data)"] n(2)
  have "length (stepResults new) = 4 * length (invoiceIds data)"
    by (metis length_enumerate length_map)
  with d n(2) show ?thesis by simp
qed

lemmas demo_defs = demo_env_def smtp_down_env_def acme_def demo_steps_def single_batch_def
  double_batch_def missing_batch_def empty_world_def

lemmas run_defs = invoicePipeline_def onInvoiceError_def contextualError_def message_of_def
  resolveRecipient_def pickRecipient_def truthy_def or_else_def step_at_def tempPath_def

lemma smtp_down_first:
  "fst (processInvoice smtp_down_env ''pg-1'' double_batch 0 ''inv-1'' empty_world) =
     Inl (Error ''SMTP connection refused'')"
  by (simp add: stage_defs io_defs run_defs demo_defs)

lemma demo_loop:
  "fst (invoiceLoop demo_env ''pg-1'' double_batch 0 [''inv-1'', ''inv-2''] empty_world) = Inr ()"
  by (simp add: stage_defs io_defs run_defs demo_defs)

theorem handle_fails_fast_or_completes_witness:
  "(\<exists>e'. fst (handle smtp_down_env ''pg-1'' double_batch empty_world) = Inl e')
   \<and> ju_status (last (job_log (snd (handle smtp_down_env ''pg-1'' double_batch empty_world)))) = Failed
   \<and> fst (handle demo_env ''pg-1'' double_batch empty_world) = Inr ()
   \<and> ju_status (last (job_log (snd (handle demo_env ''pg-1'' double_batch empty_world)))) = Completed"
proof -
  have v1: "jobServiceId double_batch \<noteq> []" "tenantId double_batch \<noteq> []"
    "create_services smtp_down_env = None" "create_services demo_env = None"
    by (simp_all add: demo_defs)
  have ids: "invoiceIds double_batch = [''inv-1'', ''inv-2'']"
    by (simp add: demo_defs)
  have a: "0 < length (invoiceIds double_batch)
      \<and> invoiceLoop smtp_down_env ''pg-1'' double_batch 0 (take 0 (invoiceIds double_batch)) empty_world
          = (Inr (), empty_world)
      \<and> processInvoice smtp_down_env ''pg-1'' double_batch 0 (invoiceIds double_batch ! 0) empty_world
          = (Inl (Error ''SMTP connection refused''),
             snd (processInvoice smtp_down_env ''pg-1'' double_batch 0 ''inv-1'' empty_world))"
    using smtp_down_first by (simp add: ids ret_def prod_eq_iff)
  have b: "invoiceIds double_batch \<noteq> []
      \<and> invoiceLoop demo_env ''pg-1'' double_batch 0 (invoiceIds double_batch) empty_world
          = (Inr (), snd (invoiceLoop demo_env ''pg-1'' double_batch 0 [''inv-1'', ''inv-2''] empty_world))"
    using demo_loop by (simp add: ids prod_eq_iff)
  from handle_fails_fast_or_completes [OF v1(1,2,3)] a
  obtain e' tail where
    f: "handle smtp_down_env ''pg-1'' double_batch empty_world =
         (Inl e', (snd (processInvoice smtp_down_env ''pg-1'' double_batch 0 ''inv-1'' empty_world))
            \<lparr>job_log := job_log (snd (processInvoice smtp_down_env ''pg-1'' double_batch 0 ''inv-1'' empty_world)) @ tail\<rparr>)"
      "tail \<noteq> []" "\<forall>u\<in>set tail. ju_status u = Failed \<and> ju_stepResult u = None"
    by blast
  from handle_fails_fast_or_completes [OF v1(1,2,4)] b
  have c: "handle demo_env ''pg-1'' double_batch empty_world =
      (Inr (), (snd (invoiceLoop demo_env ''pg-1'' double_batch 0 [''inv-1'', ''inv-2''] empty_world))
         \<lparr>job_log := job_log (snd (invoiceLoop demo_env ''pg-1'' double_batch 0 [''inv-1'', ''inv-2''] empty_world))
            @ [completedUpdate double_batch ''pg-1'']\<rparr>)"
    by blast
  show ?thesis
    using f by (simp add: c completedUpdate_def)
qed


lemma single_ok:
  "fst (handle demo_env ''pg-1'' single_batch empty_world) = Inr ()"
  by (simp add: handle_def stage_defs io_defs run_defs demo_defs)

theorem two_step_results_counterexample:
  "fst (handle demo_env ''pg-1'' single_batch empty_world) = Inr ()
   \<and> length (invoiceIds single_batch) = 1
   \<and> length (stepResults (job_log (snd (handle demo_env ''pg-1'' single_batch empty_world)))) = 4
   \<and> length (stepResults (job_log (snd (handle demo_env ''pg-1'' single_batch empty_world))))
       \<noteq> 2 * length (invoiceIds single_batch)"
  by (simp add: handle_def stage_defs io_defs run_defs demo_defs stepResults_Cons stepResults_Nil)

lemma double_ok:
  "fst (handle demo_env ''pg-1'' double_batch empty_world) = Inr ()"
  by (simp add: handle_def stage_defs io_defs run_defs demo_defs)

theorem step_results_of_full_success_witness:
  "map event_of (stepResults (job_log (snd (handle demo_env ''pg-1'' double_batch empty_world)))) =
     [(''pdf_generation'', started, ''inv-1''), (''pdf_generation'', completed, ''inv-1''),
      (''email_sending'', started, ''inv-1''), (''email_sending'', completed, ''inv-1''),
      (''pdf_generation'', started, ''inv-2''), (''pdf_generation'', completed, ''inv-2''),
      (''email_sending'', started, ''inv-2''), (''email_sending'', completed, ''inv-2'')]
   \<and> length (stepResults (job_log (snd (handle demo_env ''pg-1'' double_batch empty_world)))) = 8"
proof -
  have h: "handle demo_env ''pg-1'' double_batch empty_world =
      (Inr (), snd (handle demo_env ''pg-1'' double_batch empty_world))"
    using double_ok by (simp add: prod_eq_iff)
  show ?thesis
    using step_results_of_full_success [OF h]
    by (simp add: empty_world_def double_batch_def demo_steps_def invoice_events_def enumerate_eq_zip upt_rec)
qed

text \<open>
  C3. When the e-mail step of an invoice has written its temporary file, the file does
  not exist once the turn of that invoice is over, whatever the result of the send: the
  files are those from before the turn without the temporary path.
\<close>

theorem temp_file_removed:
  assumes "getInvoiceForRendering env invoiceId = Inr (Some invoice)"
    and "invoice_number invoice \<noteq> []"
    and "getCompanyById env (company_id invoice) = Inr (Some c)"
    and "i * 2 + 1 < length (steps data)"
    and "generateAndStore env invoiceId (invoice_number invoice) 1 = Inr file_id"
    and "resolveRecipient env invoice c = Inr (recipientEmail, recipientName)"
    and "downloadFile env file_id = Inr buffer"
    and "writeFile_error env (tempPath env i invoice) = None"
  shows "files (snd (invoicePipeline env pg data i invoiceId w)) (tempPath env i invoice) = None
       \<and> files (snd (invoicePipeline env pg data i invoiceId w)) =
           (files w)(tempPath env i invoice := None)"
proof -
  obtain r w' where p: "processInvoice env pg data i invoiceId w = (r, w')"
    by (cases "processInvoice env pg data i invoiceId w")
  have f: "files w' = (files w)(tempPath env i invoice := None)"
    using p assms
    by (auto simp: stage_defs io_defs step_at_def split: sum.splits if_splits)
  show ?thesis
  proof (cases r)
    case (Inr u)
    with p f show ?thesis by (simp add: invoicePipeline_def try_catch_def)
  next
    case (Inl e)
    obtain r2 w2 where h: "onInvoiceError env pg data invoiceId e w' = (r2, w2)"
      by (cases "onInvoiceError env pg data invoiceId e w'")
    from onInvoiceError_effect [OF h] have "files w2 = files w'" by simp
    with p f Inl h show ?thesis by (simp add: invoicePipeline_def try_catch_def)
  qed
qed

theorem temp_file_removed_witness:
  "fst (invoicePipeline smtp_down_env ''pg-1'' single_batch 0 ''inv-1'' empty_world) =
     Inl (Error ''SMTP connection refused'')
   \<and> files (snd (invoicePipeline smtp_down_env ''pg-1'' single_batch 0 ''inv-1'' empty_world))
       (tempPath smtp_down_env 0 invoice_1001) = None
   \<and> fst (invoicePipeline demo_env ''pg-1'' single_batch 0 ''inv-1'' empty_world) = Inr ()
   \<and> files (snd (invoicePipeline demo_env ''pg-1'' single_batch 0 ''inv-1'' empty_world))
       (tempPath demo_env 0 invoice_1001) = None"
proof -
  have a: "getInvoiceForRendering smtp_down_env ''inv-1'' = Inr (Some invoice_1001)"
    "invoice_number invoice_1001 \<noteq> []"
    "getCompanyById smtp_down_env (company_id invoice_1001) = Inr (Some acme)"
    "0 * 2 + 1 < length (steps single_batch)"
    "generateAndStore smtp_down_env ''inv-1'' (invoice_number invoice_1001) 1 = Inr ''file-1001''"
    "resolveRecipient smtp_down_env invoice_1001 acme = Inr (''billing@acme.test'', ''Acme'')"
    "downloadFile smtp_down_env ''file-1001'' = Inr ''%PDF-1.4''"
    "writeFile_error smtp_down_env (tempPath smtp_down_env 0 invoice_1001) = None"
    by (simp_all add: demo_defs invoice_1001_def run_defs)
  have b: "getInvoiceForRendering demo_env ''inv-1'' = Inr (Some invoice_1001)"
    "getCompanyById demo_env (company_id invoice_1001) = Inr (Some acme)"
    "generateAndStore demo_env ''inv-1'' (invoice_number invoice_1001) 1 = Inr ''file-1001''"
    "resolveRecipient demo_env invoice_1001 acme = Inr (''billing@acme.test'', ''Acme'')"
    "downloadFile demo_env ''file-1001'' = Inr ''%PDF-1.4''"
    "writeFile_error demo_env (tempPath demo_env 0 invoice_1001) = None"
    by (simp_all add: demo_defs invoice_1001_def run_defs)
  have c: "fst (invoicePipeline smtp_down_env ''pg-1'' single_batch 0 ''inv-1'' empty_world) =
     Inl (Error ''SMTP connection refused'')"
    "fst (invoicePipeline demo_env ''pg-1'' single_batch 0 ''inv-1'' empty_world) = Inr ()"
    by (simp_all add: stage_defs io_defs run_defs demo_defs)
  show ?thesis
    using temp_file_removed [OF a, of "''pg-1''" empty_world]
      temp_file_removed [OF b(1) a(2) b(2) a(4) b(3-6), of "''pg-1''" empty_world] c
    by simp
qed

text \<open>
  C5, as the code has it. When the turn of invoice \<open>k\<close> throws and the handler can read the
  invoice and its company again, the history receives a Failed record whose message is
  the error's message with its context in front, then a second Failed record with the
  bare message, and the error caught is thrown on to the caller. The context is the
  invoice number and the company name when both are there to read.
\<close>

theorem failure_recorded_with_context:
  assumes "jobServiceId data \<noteq> []" "tenantId data \<noteq> []" "create_services env = None"
    and "k < length (invoiceIds data)"
    and "invoiceLoop env pg data 0 (take k (invoiceIds data)) w = (Inr (), w1)"
    and "processInvoice env pg data k (invoiceIds data ! k) w1 = (Inl e, w2)"
    and "getInvoiceForRendering env (invoiceIds data ! k) = Inr invoice_opt"
    and "(case invoice_opt of None \<Rightarrow> Inr None
          | Some invoice \<Rightarrow> getCompanyById env (company_id invoice)) = Inr company_opt"
  shows "handle env pg data w =
           (Inl e, w2\<lparr>job_log := job_log w2 @
              [failedUpdate data pg (contextualError invoice_opt company_opt (invoiceIds data ! k) e),
               failedUpdate data pg (message_of e)]\<rparr>)
       \<and> (\<forall>invoice c. invoice_opt = Some invoice \<and> invoice_number invoice \<noteq> []
              \<and> company_opt = Some c \<and> company_name c \<noteq> []
            \<longrightarrow> contextualError invoice_opt company_opt (invoiceIds data ! k) e =
                  ''Failed to process Invoice #'' @ invoice_number invoice @ '' for ''
                    @ company_name c @ '': '' @ message_of e)"
proof -
  have "invoicePipeline env pg data k (invoiceIds data ! k) w1 =
      (Inl e, w2\<lparr>job_log := job_log w2 @
         [failedUpdate data pg (contextualError invoice_opt company_opt (invoiceIds data ! k) e)]\<rparr>)"
    using assms(6-8)
    by (auto simp: invoicePipeline_def onInvoiceError_def io_defs failedUpdate_def
        split: option.splits)
  from handle_after_failure [OF assms(1-5) this]
  have "handle env pg data w =
           (Inl e, w2\<lparr>job_log := job_log w2 @
              [failedUpdate data pg (contextualError invoice_opt company_opt (invoiceIds data ! k) e),
               failedUpdate data pg (message_of e)]\<rparr>)"
    by simp
  then show ?thesis
    by (simp add: contextualError_def)
qed

theorem failure_recorded_with_context_witness:
  "fst (handle smtp_down_env ''pg-1'' double_batch empty_world) = Inl (Error ''SMTP connection refused'')
   \<and> map ju_error (drop 3 (job_log (snd (handle smtp_down_env ''pg-1'' double_batch empty_world)))) =
       [Some ''Failed to process Invoice #1001 for Acme: SMTP connection refused'',
        Some ''SMTP connection refused'']"
proof -
  have v: "jobServiceId double_batch \<noteq> []" "tenantId double_batch \<noteq> []"
    "create_services smtp_down_env = None" "0 < length (invoiceIds double_batch)"
    by (simp_all add: demo_defs)
  have a: "invoiceLoop smtp_down_env ''pg-1'' double_batch 0 (take 0 (invoiceIds double_batch)) empty_world
          = (Inr (), empty_world)"
    by (simp add: ret_def)
  have b: "processInvoice smtp_down_env ''pg-1'' double_batch 0 (invoiceIds double_batch ! 0) empty_world
          = (Inl (Error ''SMTP connection refused''),
             snd (processInvoice smtp_down_env ''pg-1'' double_batch 0 ''inv-1'' empty_world))"
    using smtp_down_first by (simp add: double_batch_def prod_eq_iff)
  have c: "getInvoiceForRendering smtp_down_env (invoiceIds double_batch ! 0) = Inr (Some invoice_1001)"
    "(case Some invoice_1001 of None \<Rightarrow> Inr None
      | Some invoice \<Rightarrow> getCompanyById smtp_down_env (company_id invoice)) = Inr (Some acme)"
    by (simp_all add: demo_defs invoice_1001_def)
  have n: "length (job_log (snd (processInvoice smtp_down_env ''pg-1'' double_batch 0 ''inv-1'' empty_world))) = 3"
    by (simp add: stage_defs io_defs run_defs demo_defs)
  show ?thesis
    using failure_recorded_with_context [OF v(1-3) v(4) a b c] n
    by (simp add: failedUpdate_def contextualError_def message_of_def invoice_1001_def acme_def
        double_batch_def)
qed

theorem missing_invoice_context_counterexample:
  "getInvoiceForRendering demo_env ''inv-404'' = Inr None
   \<and> fst (handle demo_env ''pg-1'' missing_batch empty_world) =
       Inl (Error ''Failed to get details for Invoice ID inv-404'')
   \<and> map ju_status (job_log (snd (handle demo_env ''pg-1'' missing_batch empty_world))) =
       [Failed, Failed]
   \<and> map ju_error (job_log (snd (handle demo_env ''pg-1'' missing_batch empty_world))) =
       [Some ''Failed to process Invoice #inv-404 for Unknown Company: Failed to get details for Invoice ID inv-404'',
        Some ''Failed to get details for Invoice ID inv-404'']"
  by (simp add: handle_def stage_defs io_defs run_defs demo_defs)


text \<open>
  C4, as the code has it. With a billing contact configured and found, the recipient is
  the contact's address and name; with one configured and not found, the company's
  general e-mail; with none configured, the billing e-mail when there is one, else the
  general e-mail. An address that is absent or empty is a hard failure. This is the
  precedence of the specification whenever the configured contact is found with an
  address, or none is configured.
\<close>

theorem recipient_resolution:
  "(truthy (billing_contact_id c)
      \<and> ContactModel_get env (the (billing_contact_id c)) = Inr (Some row)
    \<longrightarrow> pickRecipient env c = Inr (contact_email row, full_name row))
   \<and> (truthy (billing_contact_id c)
      \<and> ContactModel_get env (the (billing_contact_id c)) = Inr None
    \<longrightarrow> pickRecipient env c = Inr (email c, company_name c))
   \<and> (\<not> truthy (billing_contact_id c) \<and> truthy (billing_email c)
    \<longrightarrow> pickRecipient env c = Inr (billing_email c, company_name c))
   \<and> (\<not> truthy (billing_contact_id c) \<and> \<not> truthy (billing_email c)
    \<longrightarrow> pickRecipient env c = Inr (email c, company_name c))
   \<and> (pickRecipient env c = Inr (a, n)
    \<longrightarrow> resolveRecipient env invoice c =
          (if truthy a then Inr (the a, n)
           else Inl (Error (''No valid email address found for '' @ company_name c
                  @ '' (Invoice #'' @ invoice_number invoice @ '')''))))
   \<and> ((truthy (billing_contact_id c)
        \<longrightarrow> ContactModel_get env (the (billing_contact_id c)) = Inr (Some row)
            \<and> truthy (contact_email row))
    \<longrightarrow> resolveRecipient env invoice c = recipient_by_precedence env invoice c)"
  by (auto simp: pickRecipient_def resolveRecipient_def recipient_by_precedence_def)

theorem recipient_resolution_witness:
  "resolveRecipient demo_env invoice_1001 acme_with_contact = Inr (''pat@acme.test'', ''Pat Lee'')
   \<and> resolveRecipient demo_env invoice_1001 acme_dangling = Inr (''info@acme.test'', ''Acme'')
   \<and> resolveRecipient demo_env invoice_1001 acme = Inr (''billing@acme.test'', ''Acme'')
   \<and> resolveRecipient demo_env invoice_1001 (acme\<lparr>billing_email := None\<rparr>) =
        Inr (''info@acme.test'', ''Acme'')
   \<and> recipient_by_precedence demo_env invoice_1001 acme = Inr (''billing@acme.test'', ''Acme'')"
proof -
  let ?pat = "\<lparr>contact_email = Some ''pat@acme.test'', full_name = ''Pat Lee''\<rparr>"
  have h1: "truthy (billing_contact_id acme_with_contact)
      \<and> ContactModel_get demo_env (the (billing_contact_id acme_with_contact)) = Inr (Some ?pat)"
    by (simp add: acme_with_contact_def acme_def demo_env_def truthy_def)
  have h2: "truthy (billing_contact_id acme_dangling)
      \<and> ContactModel_get demo_env (the (billing_contact_id acme_dangling)) = Inr None"
    by (simp add: acme_dangling_def acme_def demo_env_def truthy_def)
  have h3: "\<not> truthy (billing_contact_id acme) \<and> truthy (billing_email acme)"
    by (simp add: acme_def truthy_def)
  have h4: "\<not> truthy (billing_contact_id (acme\<lparr>billing_email := None\<rparr>))
      \<and> \<not> truthy (billing_email (acme\<lparr>billing_email := None\<rparr>))"
    by (simp add: acme_def truthy_def)
  have h6: "truthy (billing_contact_id acme)
        \<longrightarrow> ContactModel_get demo_env (the (billing_contact_id acme)) = Inr (Some ?pat)
            \<and> truthy (contact_email ?pat)"
    by (simp add: acme_def truthy_def)
  note r1 = recipient_resolution [of acme_with_contact demo_env ?pat "contact_email ?pat" "full_name ?pat" invoice_1001]
  note r2 = recipient_resolution [of acme_dangling demo_env ?pat "email acme_dangling" "company_name acme_dangling" invoice_1001]
  note r3 = recipient_resolution [of acme demo_env ?pat "billing_email acme" "company_name acme" invoice_1001]
  note r4 = recipient_resolution [of "acme\<lparr>billing_email := None\<rparr>" demo_env ?pat "email acme" "company_name acme" invoice_1001]
  show ?thesis
    using r1 r2 r3 r4 h1 h2 h3 h4 h6
    by (auto simp: acme_with_contact_def acme_dangling_def acme_def truthy_def)
qed

theorem billing_over_general_counterexample:
  "truthy (billing_contact_id acme_dangling)
   \<and> ContactModel_get demo_env (the (billing_contact_id acme_dangling)) = Inr None
   \<and> billing_email acme_dangling = Some ''billing@acme.test''
   \<and> resolveRecipient demo_env invoice_1001 acme_dangling = Inr (''info@acme.test'', ''Acme'')
   \<and> recipient_by_precedence demo_env invoice_1001 acme_dangling =
       Inr (''billing@acme.test'', ''Acme'')"
  by (simp add: resolveRecipient_def pickRecipient_def recipient_by_precedence_def truthy_def
      acme_dangling_def acme_def demo_env_def)

text \<open>
  C10. For a company whose \<open>billing_contact_id\<close> is set while the contact lookup finds no
  contact, the recipient is the company's general e-mail, and a hard failure when there
  is none: the result is the same whatever the billing e-mail is.
\<close>

theorem dangling_contact_ignores_billing_email:
  assumes "truthy (billing_contact_id c)"
    and "ContactModel_get env (the (billing_contact_id c)) = Inr None"
  shows "resolveRecipient env invoice (c\<lparr>billing_email := b\<rparr>) =
           (if truthy (email c) then Inr (the (email c), company_name c)
            else Inl (Error (''No valid email address found for '' @ company_name c
                   @ '' (Invoice #'' @ invoice_number invoice @ '')'')))
       \<and> resolveRecipient env invoice (c\<lparr>billing_email := b\<rparr>) = resolveRecipient env invoice c"
  using assms by (simp add: resolveRecipient_def pickRecipient_def)

theorem dangling_contact_ignores_billing_email_witness:
  "resolveRecipient demo_env invoice_1001
      (acme_dangling\<lparr>email := None, billing_email := Some ''billing@acme.test''\<rparr>) =
     Inl (Error ''No valid email address found for Acme (Invoice #1001)'')"
proof -
  have h: "truthy (billing_contact_id (acme_dangling\<lparr>email := None\<rparr>))"
    "ContactModel_get demo_env (the (billing_contact_id (acme_dangling\<lparr>email := None\<rparr>))) = Inr None"
    by (simp_all add: acme_dangling_def acme_def demo_env_def truthy_def)
  show ?thesis
    using dangling_contact_ignores_billing_email [OF h, of invoice_1001 "Some ''billing@acme.test''"]
    by (simp add: acme_dangling_def acme_def truthy_def invoice_1001_def)
qed

section \<open>Properties of invoice generation and finalisation\<close>

lemma all_items_Inl:
  "(\<exists>e. all_items rs = Inl e) \<longleftrightarrow> (\<exists>r\<in>set rs. \<exists>e. r = Inl e)"
  by (induction rs) (auto split: sum.splits)

lemma all_items_map_Inl:
  "(\<exists>e. all_items (map f xs) = Inl e) \<longleftrightarrow> (\<exists>x\<in>set xs. \<exists>e. f x = Inl e)"
  by (simp add: all_items_Inl)

lemma fixed_line_rejects: "(\<exists>e. fixed_line ps = Inl e) \<longleftrightarrow> rate_of ps = None"
  by (simp add: fixed_line_def split: option.splits)

lemma hourly_line_rejects:
  "(\<exists>e. hourly_line es ps = Inl e) \<longleftrightarrow> rate_of ps = None \<and> approved_for ps es \<noteq> []"
  by (simp add: hourly_line_def split: option.splits)

lemma usage_line_rejects: "(\<exists>e. usage_line u = Inl e) \<longleftrightarrow> default_rate (ur_service u) = None"
  by (simp add: usage_line_def split: option.splits)

lemma plan_items_rejects:
  "(\<exists>e. plan_items src companyId periodStart periodEnd plan = Inl e)
     \<longleftrightarrow> rate_undefined src companyId periodStart periodEnd plan"
  by (cases "plan_kind plan")
    (simp_all add: plan_items_def rate_undefined_def all_items_map_Inl list_ex_iff
      fixed_line_rejects hourly_line_rejects usage_line_rejects)

text \<open>
  C6. generateInvoice rejects a period whose start is not before its end with a
  validation error; it rejects a company with no plan active in the period with a
  message that names the company; and it rejects when a plan active in the period has a
  required rate undefined.
\<close>

theorem generateInvoice_rejections:
  "(periodStart \<ge> periodEnd
    \<longrightarrow> generateInvoice src store companyId periodStart periodEnd =
          Inl (ValidationError ''Invalid billing period: start date must be before end date''))
   \<and> (periodStart < periodEnd \<and> active_plans src companyId periodStart periodEnd = []
    \<longrightarrow> generateInvoice src store companyId periodStart periodEnd =
          Inl (ComputationError (''No active billing plans found for company '' @ companyId
            @ '' in the given period'')))
   \<and> (periodStart < periodEnd
      \<and> (\<exists>plan \<in> set (active_plans src companyId periodStart periodEnd).
            rate_undefined src companyId periodStart periodEnd plan)
    \<longrightarrow> (\<exists>e. generateInvoice src store companyId periodStart periodEnd = Inl e))"
proof (intro conjI impI)
  assume "periodStart \<ge> periodEnd"
  then show "generateInvoice src store companyId periodStart periodEnd =
      Inl (ValidationError ''Invalid billing period: start date must be before end date'')"
    by (simp add: generateInvoice_def)
next
  assume "periodStart < periodEnd \<and> active_plans src companyId periodStart periodEnd = []"
  then show "generateInvoice src store companyId periodStart periodEnd =
      Inl (ComputationError (''No active billing plans found for company '' @ companyId
        @ '' in the given period''))"
    by (simp add: generateInvoice_def)
next
  assume a: "periodStart < periodEnd
      \<and> (\<exists>plan \<in> set (active_plans src companyId periodStart periodEnd).
            rate_undefined src companyId periodStart periodEnd plan)"
  then obtain plan where p: "plan \<in> set (active_plans src companyId periodStart periodEnd)"
      "rate_undefined src companyId periodStart periodEnd plan"
    by blast
  from p(2) obtain e where "plan_items src companyId periodStart periodEnd plan = Inl e"
    using plan_items_rejects by blast
  with p(1) have "\<exists>r\<in>set (map (plan_items src companyId periodStart periodEnd)
        (active_plans src companyId periodStart periodEnd)). \<exists>e. r = Inl e"
    by force
  then obtain e' where "all_items (map (plan_items src companyId periodStart periodEnd)
        (active_plans src companyId periodStart periodEnd)) = Inl e'"
    using all_items_Inl by blast
  with a p(1) show "\<exists>e. generateInvoice src store companyId periodStart periodEnd = Inl e"
    by (auto simp: generateInvoice_def)
qed

theorem generateInvoice_rejections_witness:
  "generateInvoice demo_source [] ''co-fixed'' 200 100 =
     Inl (ValidationError ''Invalid billing period: start date must be before end date'')
   \<and> generateInvoice demo_source [] ''co-idle'' 100 200 =
     Inl (ComputationError ''No active billing plans found for company co-idle in the given period'')
   \<and> (\<exists>e. generateInvoice demo_source [] ''co-norate'' 100 200 = Inl e)"
proof -
  have h1: "(200::int) \<ge> 100" by simp
  have h2: "(100::int) < 200 \<and> active_plans demo_source ''co-idle'' 100 200 = []"
    by (simp add: demo_source_def)
  have h3: "(100::int) < 200
      \<and> (\<exists>plan \<in> set (active_plans demo_source ''co-norate'' 100 200).
            rate_undefined demo_source ''co-norate'' 100 200 plan)"
    by (simp add: demo_source_def rate_undefined_def rate_of_def)
  show ?thesis
    using generateInvoice_rejections [of 100 200 demo_source "[]" "''co-fixed''"]
      generateInvoice_rejections [of 200 100 demo_source "[]" "''co-idle''"]
      generateInvoice_rejections [of 200 100 demo_source "[]" "''co-norate''"]
      h1 h2 h3
    by simp
qed


lemma all_items_all:
  assumes "all_items rs = Inr xs" and "\<forall>r\<in>set rs. \<forall>ys. r = Inr ys \<longrightarrow> (\<forall>y\<in>set ys. P y)"
  shows "\<forall>x\<in>set xs. P x"
  using assms by (induction rs arbitrary: xs) (auto split: sum.splits)

lemma line_item_net: "net_amount (line_item d q p) = quantity (line_item d q p) * unit_price (line_item d q p)"
  by (simp add: line_item_def)

lemma plan_items_net:
  assumes "plan_items src companyId periodStart periodEnd plan = Inr xs"
  shows "\<forall>x\<in>set xs. net_amount x = quantity x * unit_price x"
proof (cases "plan_kind plan")
  case Fixed
  with assms have "all_items (map fixed_line (plan_services src (plan_id plan))) = Inr xs"
    by (simp add: plan_items_def)
  then show ?thesis
    by (rule all_items_all) (auto simp: fixed_line_def line_item_net split: option.splits)
next
  case Hourly
  with assms have "all_items (map (hourly_line
      (time_entries src companyId (plan_id plan) periodStart periodEnd))
      (plan_services src (plan_id plan))) = Inr xs"
    by (simp add: plan_items_def)
  then show ?thesis
    by (rule all_items_all)
      (auto simp: hourly_line_def line_item_net split: option.splits if_splits)
next
  case Usage
  with assms have "all_items (map usage_line
      (usage_records src companyId (plan_id plan) periodStart periodEnd)) = Inr xs"
    by (simp add: plan_items_def)
  then show ?thesis
    by (rule all_items_all) (auto simp: usage_line_def line_item_net split: option.splits)
next
  case Bucket
  with assms show ?thesis
    by (auto simp: plan_items_def bucket_line_def line_item_net split: if_splits)
qed

text \<open>
  C7. The subtotal of a generated invoice is the sum of the net amounts of its line items,
  each the product of quantity and unit price; its tax is the selected tax rate applied
  to the subtotal, and its total is the subtotal plus the tax.
\<close>

theorem invoice_totals:
  assumes "generateInvoice src store companyId periodStart periodEnd = Inr (invoice, store')"
  shows "subtotal invoice = sum_list (map net_amount (line_items invoice))
       \<and> tax invoice = calculateTax (select_tax_rate src companyId) (subtotal invoice)
       \<and> total_amount invoice = subtotal invoice + tax invoice
       \<and> (\<forall>x\<in>set (line_items invoice). net_amount x = quantity x * unit_price x)"
proof -
  from assms obtain items where
    i: "all_items (map (plan_items src companyId periodStart periodEnd)
          (active_plans src companyId periodStart periodEnd)) = Inr items"
    and inv: "invoice = assemble src store companyId items"
    by (auto simp: generateInvoice_def split: if_splits sum.splits)
  have "\<forall>x\<in>set items. net_amount x = quantity x * unit_price x"
    using i by (rule all_items_all) (auto dest: plan_items_net)
  then show ?thesis
    by (simp add: inv assemble_def)
qed

theorem invoice_totals_witness:
  "subtotal (fst (projr (generateInvoice demo_source [] ''co-fixed'' 100 200))) = 50000
   \<and> tax (fst (projr (generateInvoice demo_source [] ''co-fixed'' 100 200))) = 5000
   \<and> total_amount (fst (projr (generateInvoice demo_source [] ''co-fixed'' 100 200))) = 55000
   \<and> calculateTax (Some \<lparr>tax_percentage = 10, is_reverse_charge_applicable = False\<rparr>) 50000 = 5000"
proof -
  have g: "generateInvoice demo_source [] ''co-fixed'' 100 200 =
      Inr (fst (projr (generateInvoice demo_source [] ''co-fixed'' 100 200)),
           snd (projr (generateInvoice demo_source [] ''co-fixed'' 100 200)))"
    by (simp add: generateInvoice_def demo_source_def plan_items_def fixed_line_def rate_of_def)
  have l: "line_items (fst (projr (generateInvoice demo_source [] ''co-fixed'' 100 200))) =
      [line_item ''Taxable Service'' 1 50000]"
    by (simp add: generateInvoice_def demo_source_def plan_items_def fixed_line_def rate_of_def
        assemble_def)
  have s: "select_tax_rate demo_source ''co-fixed'' =
      Some \<lparr>tax_percentage = 10, is_reverse_charge_applicable = False\<rparr>"
    by (simp add: select_tax_rate_def demo_source_def)
  have t: "calculateTax (Some \<lparr>tax_percentage = 10, is_reverse_charge_applicable = False\<rparr>) 50000 = 5000"
    by (simp add: calculateTax_def)
  show ?thesis
    using invoice_totals [OF g] l s t
    by (simp add: line_item_def)
qed


text \<open>
  C8. The overage of a bucket-usage row is max(0, hours_used - total_hours). A row with
  overage yields exactly one line item, its description ending in "(Overage)", its
  quantity the overage and its unit price the bucket's overage rate; a row without
  overage yields none. The items of a Bucket plan are those of its rows in the period.
\<close>

theorem bucket_overage_lines:
  "overage b = max 0 (hours_used b - total_hours b)
   \<and> (overage b > 0
    \<longrightarrow> bucket_line b =
          [\<lparr>description = service_name (bu_service b) @ '' (Overage)'', quantity = overage b,
            unit_price = overage_rate b, net_amount = overage b * overage_rate b\<rparr>])
   \<and> (overage b = 0 \<longrightarrow> bucket_line b = [])
   \<and> (plan_kind plan = Bucket
    \<longrightarrow> plan_items src companyId periodStart periodEnd plan =
          Inr (concat (map bucket_line
            (bucket_usage src companyId (plan_id plan) periodStart periodEnd))))"
  by (simp add: overage_def bucket_line_def line_item_def plan_items_def)

theorem bucket_overage_lines_witness:
  "plan_items demo_source ''co-bucket'' 100 200 \<lparr>plan_id = ''p-bucket'', plan_kind = Bucket\<rparr> =
     Inr [\<lparr>description = ''Consulting Hours (Overage)'', quantity = 5, unit_price = 7500,
           net_amount = 37500\<rparr>]"
proof -
  let ?over = "\<lparr>bu_service = \<lparr>service_id = ''s-3'', service_name = ''Consulting Hours'',
                               default_rate = Some 0\<rparr>,
                hours_used = 45, total_hours = 40, overage_rate = 7500\<rparr>"
  let ?under = "\<lparr>bu_service = \<lparr>service_id = ''s-3'', service_name = ''Consulting Hours'',
                               default_rate = Some 0\<rparr>,
                hours_used = 30, total_hours = 40, overage_rate = 7500\<rparr>"
  let ?plan = "\<lparr>plan_id = ''p-bucket'', plan_kind = Bucket\<rparr>"
  have rows: "bucket_usage demo_source ''co-bucket'' (plan_id ?plan) 100 200 = [?over, ?under]"
    by (simp add: demo_source_def)
  have o: "overage ?over = 5" "overage ?under = 0"
    by (simp_all add: overage_def)
  have h: "overage ?over > 0" "overage ?under = 0" "plan_kind ?plan = Bucket"
    by (simp_all add: o)
  show ?thesis
    using bucket_overage_lines [of ?over ?plan demo_source "''co-bucket''" 100 200]
      bucket_overage_lines [of ?under ?plan demo_source "''co-bucket''" 100 200] h rows o
    by simp
qed

text \<open>
  C9. finalizeInvoice on an existing draft sets its status to sent and stamps finalized_at;
  on an invoice that is not a draft, or on an identifier that does not exist, it is
  rejected. An operation that takes an invoice out of draft is the finalisation of that
  invoice.
\<close>

theorem finalizeInvoice_transitions:
  "(invoiceId < length store \<and> status (store ! invoiceId) = draft
    \<longrightarrow> finalizeInvoice store invoiceId now =
          Inr ((store ! invoiceId)\<lparr>status := sent, finalized_at := Some now\<rparr>,
               store[invoiceId := (store ! invoiceId)\<lparr>status := sent, finalized_at := Some now\<rparr>])
        \<and> status (fst (projr (finalizeInvoice store invoiceId now))) = sent
        \<and> finalized_at (fst (projr (finalizeInvoice store invoiceId now))) \<noteq> None)
   \<and> (invoiceId < length store \<and> status (store ! invoiceId) \<noteq> draft
    \<longrightarrow> (\<exists>e. finalizeInvoice store invoiceId now = Inl e))
   \<and> (invoiceId \<ge> length store \<longrightarrow> (\<exists>e. finalizeInvoice store invoiceId now = Inl e))
   \<and> (apply_op src op store = Inr store' \<and> i < length store
        \<and> status (store ! i) = draft \<and> status (store' ! i) \<noteq> draft
    \<longrightarrow> (\<exists>t. op = Finalize i t) \<and> status (store' ! i) = sent)"
proof (intro conjI impI)
  assume a: "apply_op src op store = Inr store' \<and> i < length store
        \<and> status (store ! i) = draft \<and> status (store' ! i) \<noteq> draft"
  show "\<exists>t. op = Finalize i t"
  proof (cases op)
    case (Generate c s e)
    with a have "store' ! i = store ! i"
      by (auto simp: apply_op_def generateInvoice_def nth_append
          split: if_splits sum.splits)
    with a show ?thesis by simp
  next
    case (Finalize j t)
    with a have "j = i"
      by (cases "j = i") (auto simp: apply_op_def finalizeInvoice_def split: if_splits)
    with Finalize show ?thesis by simp
  qed
  then obtain t where "op = Finalize i t" by blast
  with a show "status (store' ! i) = sent"
    by (auto simp: apply_op_def finalizeInvoice_def split: if_splits)
qed (simp_all add: finalizeInvoice_def)

theorem finalizeInvoice_transitions_witness:
  "status (fst (projr (finalizeInvoice
      (snd (projr (generateInvoice demo_source [] ''co-fixed'' 100 200))) 0 300))) = sent
   \<and> finalized_at (fst (projr (finalizeInvoice
      (snd (projr (generateInvoice demo_source [] ''co-fixed'' 100 200))) 0 300))) = Some 300
   \<and> (\<exists>e. finalizeInvoice
      (snd (projr (finalizeInvoice
        (snd (projr (generateInvoice demo_source [] ''co-fixed'' 100 200))) 0 300))) 0 400 = Inl e)
   \<and> (\<exists>e. finalizeInvoice
      (snd (projr (generateInvoice demo_source [] ''co-fixed'' 100 200))) 7 300 = Inl e)"
proof -
  let ?inv = "assemble demo_source [] ''co-fixed'' [line_item ''Taxable Service'' 1 50000]"
  have g: "snd (projr (generateInvoice demo_source [] ''co-fixed'' 100 200)) = [?inv]"
    by (simp add: generateInvoice_def demo_source_def plan_items_def fixed_line_def rate_of_def)
  have d: "status ?inv = draft" by (simp add: assemble_def)
  have h1: "0 < length [?inv] \<and> status ([?inv] ! 0) = draft" using d by simp
  let ?sent = "?inv\<lparr>status := sent, finalized_at := Some 300\<rparr>"
  have h2: "0 < length [?sent] \<and> status ([?sent] ! 0) \<noteq> draft" by simp
  have h3: "7 \<ge> length [?inv]" by simp
  have h4: "apply_op demo_source (Finalize 0 300) [?inv] = Inr [?sent] \<and> 0 < length [?inv]
        \<and> status ([?inv] ! 0) = draft \<and> status ([?sent] ! 0) \<noteq> draft"
    using d by (simp add: apply_op_def finalizeInvoice_def)
  show ?thesis
    using finalizeInvoice_transitions [of 0 "[?inv]" 300 demo_source "Finalize 0 300" "[?sent]" 0]
      finalizeInvoice_transitions [of 0 "[?sent]" 400 demo_source "Finalize 0 300" "[?sent]" 0]
      finalizeInvoice_transitions [of 7 "[?inv]" 300 demo_source "Finalize 0 300" "[?sent]" 0]
      h1 h2 h3 h4
    by (simp add: g)
qed

end
